theory Spec2Isabelle
  imports Complex_Main "HOL-Library.Char_ord" "HOL-Library.List_Lexorder" "HOL-Library.Multiset"
begin

section \<open>Data model\<close>

text \<open>
  The script \<^verbatim>\<open>05_visualize.py\<close> renders maps and charts from two loaded tables.
  A floating-point cell is modelled as \<open>real option\<close> and a text cell as
  \<open>string option\<close>, where \<open>None\<close> is the missing value (NaN / null).
  The polygon geometry of a response area plays no part in any filter and is left out.
  The content of the three input files is an argument of the model; a missing or malformed
  file is not modelled.
\<close>

datatype error =
    KeyError string | TypeError string | ValueError string
  | IndexError string | ZeroDivisionError string

text \<open>One row of \<^verbatim>\<open>summary_by_urban_class.csv\<close>.\<close>

record summary_row =
  urban_class :: "string option"
  population :: "real option"
  total_incidents :: "real option"
  incidents_per_1000_pop :: "real option"
  pct_single_family :: "real option"

text \<open>One row of \<^verbatim>\<open>response_areas_final.geojson\<close>: the same attributes and an identifier.\<close>

record response_area = summary_row +
  response_area_id :: string

text \<open>
  A summary DataFrame: the names of the columns it has, and its rows. A field of a row
  is meaningful only when its name is among \<open>columns\<close>; every access to a column goes
  through \<open>get_column\<close>, which raises \<open>KeyError\<close> for an absent name.
\<close>

record summary_df =
  columns :: "string list"
  rows :: "summary_row list"

subsection \<open>Element-wise comparisons on columns with missing values\<close>

definition notna :: "'a option \<Rightarrow> bool" where
  "notna v = (v \<noteq> None)"

text \<open>\<^verbatim>\<open>col > c\<close>: a comparison with NaN is false.\<close>

definition gt :: "real option \<Rightarrow> real \<Rightarrow> bool" where
  "gt v c = (case v of None \<Rightarrow> False | Some x \<Rightarrow> c < x)"

text \<open>\<^verbatim>\<open>col != s\<close>: a missing value is different from every string.\<close>

definition ne :: "string option \<Rightarrow> string \<Rightarrow> bool" where
  "ne v s = (v \<noteq> Some s)"

subsection \<open>Columns of the response-area table\<close>

datatype column =
    NumCol "response_area \<Rightarrow> real option"
  | StrCol "response_area \<Rightarrow> string option"

definition gdf_column :: "string \<Rightarrow> column option" where
  "gdf_column c =
     (if c = ''response_area_id'' then Some (StrCol (\<lambda>r. Some (response_area_id r)))
      else if c = ''population'' then Some (NumCol population)
      else if c = ''incidents_per_1000_pop'' then Some (NumCol incidents_per_1000_pop)
      else if c = ''pct_single_family'' then Some (NumCol pct_single_family)
      else if c = ''urban_class'' then Some (StrCol urban_class)
      else if c = ''total_incidents'' then Some (NumCol total_incidents)
      else None)"

text \<open>A value found in \<^verbatim>\<open>feature['properties']\<close>.\<close>

datatype pyval = PStr string | PNum real | PNone

definition properties :: "response_area \<Rightarrow> string \<rightharpoonup> pyval" where
  "properties r c =
     (case gdf_column c of
        None \<Rightarrow> None
      | Some (NumCol f) \<Rightarrow> Some (case f r of None \<Rightarrow> PNone | Some v \<Rightarrow> PNum v)
      | Some (StrCol f) \<Rightarrow> Some (case f r of None \<Rightarrow> PNone | Some s \<Rightarrow> PStr s))"

section \<open>Output artefacts and the world\<close>

text \<open>
  The mapping and plotting libraries are not part of the repository. An artefact records
  the data the script hands to them: the layers of a map document, the arguments of the
  \<^verbatim>\<open>bar\<close>, \<^verbatim>\<open>scatter\<close>, \<^verbatim>\<open>plot\<close> and \<^verbatim>\<open>table\<close> calls. Where a library call
  raises on data that the script can hand to it, the call is modelled as far as it raises
  (\<open>ax_bar\<close> and \<open>ax_table\<close> below).
\<close>

record style =
  fillColor :: string
  color :: string
  weight :: real
  fillOpacity :: real

datatype layer =
    Choropleth "response_area list" "string list" string string
      \<comment> \<open>geo_data / data, columns, fill_color, legend_name\<close>
  | GeoJson "(response_area \<times> style) list" "string list"
      \<comment> \<open>each feature with the result of the style function, tooltip fields\<close>
  | Legend "(string \<times> string) list"
      \<comment> \<open>the fixed HTML legend: colour and caption of each entry\<close>

text \<open>A formatted table cell: the text as it is, or a number under a format specification.\<close>

datatype cell = Text "string option" | Formatted string "real option"

text \<open>The result of the regression; \<open>None\<close> is NaN.\<close>

record fit =
  slope :: "real option"
  intercept :: "real option"
  r_value :: real

record series =
  series_class :: string
  series_color :: string
  series_x :: "real option list"
  series_y :: "real option list"
  series_s :: "real option list"

datatype artefact =
    MapDoc "layer list"
  | BarChart "string option list" "string list" "real option list" "real option list"
      \<comment> \<open>x labels, colours, heights of the left panel, heights of the right panel\<close>
  | ScatterPlot "series list" "real list" "real option list" real
      \<comment> \<open>the scattered series, x_line, y_line, r_value\<close>
  | TableImage "string list" "cell list list"
      \<comment> \<open>colLabels, cellText\<close>

text \<open>
  The world: the files written to \<^verbatim>\<open>outputs/\<close> (newest first; a name may occur again
  when a file is overwritten, and the first occurrence is the file's content), the lines
  printed, and the store of summary DataFrames, which the renderers receive by reference.
\<close>

record world =
  files :: "(string \<times> artefact) list"
  console :: "string list"
  frames :: "nat \<Rightarrow> summary_df"

definition print :: "string \<Rightarrow> world \<Rightarrow> world" where
  "print s w = w\<lparr>console := console w @ [s]\<rparr>"

definition save :: "string \<Rightarrow> artefact \<Rightarrow> world \<Rightarrow> world" where
  "save filename a w = w\<lparr>files := (filename, a) # files w\<rparr>"

text \<open>The UTF-8 bytes of the check mark printed in front of \<^verbatim>\<open>Saved\<close>.\<close>

definition check_mark :: string where
  "check_mark = [CHR 0xE2, CHR 0x9C, CHR 0x93]"

definition saved_message :: "string \<Rightarrow> string" where
  "saved_message filename = ''    '' @ check_mark @ '' Saved: outputs/'' @ filename"

text \<open>The files a call has written: what \<open>w'\<close> has in front of the files of \<open>w\<close>.\<close>

definition new_files :: "world \<Rightarrow> world \<Rightarrow> (string \<times> artefact) list" where
  "new_files w w' = take (length (files w') - length (files w)) (files w')"

fun layer_features :: "layer \<Rightarrow> response_area set" where
  "layer_features (Choropleth geo cols fill legend) = set geo"
| "layer_features (GeoJson fs tooltip) = fst ` set fs"
| "layer_features (Legend entries) = {}"

fun rendered_features :: "artefact \<Rightarrow> response_area set" where
  "rendered_features (MapDoc layers) = (\<Union>l \<in> set layers. layer_features l)"
| "rendered_features _ = {}"

text \<open>
  The rows handed to the colouring layer of a map document (\<^verbatim>\<open>folium.Choropleth\<close>), and
  the rows handed to its feature layer (\<^verbatim>\<open>folium.GeoJson\<close>), in their order.
\<close>

fun choropleth_rows :: "layer \<Rightarrow> response_area list" where
  "choropleth_rows (Choropleth geo cols fill legend) = geo"
| "choropleth_rows (GeoJson fs tooltip) = []"
| "choropleth_rows (Legend entries) = []"

fun geojson_rows :: "layer \<Rightarrow> response_area list" where
  "geojson_rows (Choropleth geo cols fill legend) = []"
| "geojson_rows (GeoJson fs tooltip) = map fst fs"
| "geojson_rows (Legend entries) = []"

fun coloured_features :: "artefact \<Rightarrow> response_area list" where
  "coloured_features (MapDoc layers) = concat (map choropleth_rows layers)"
| "coloured_features _ = []"

fun tooltip_features :: "artefact \<Rightarrow> response_area list" where
  "tooltip_features (MapDoc layers) = concat (map geojson_rows layers)"
| "tooltip_features _ = []"

text \<open>The series scattered into a scatter plot, one for each colour.\<close>

fun scattered_of :: "artefact \<Rightarrow> series list" where
  "scattered_of (ScatterPlot scattered x_line y_line r) = scattered"
| "scattered_of _ = []"

text \<open>The trend line drawn into a scatter plot: the values of \<^verbatim>\<open>y_line\<close>.\<close>

fun trend_line :: "artefact \<Rightarrow> real option list" where
  "trend_line (ScatterPlot scattered x_line y_line r) = y_line"
| "trend_line _ = []"

text \<open>The arguments of the two \<^verbatim>\<open>bar\<close> calls of a bar chart.\<close>

fun x_labels_of :: "artefact \<Rightarrow> string option list" where
  "x_labels_of (BarChart x_labels colors bars1 bars2) = x_labels"
| "x_labels_of _ = []"

fun bars1_of :: "artefact \<Rightarrow> real option list" where
  "bars1_of (BarChart x_labels colors bars1 bars2) = bars1"
| "bars1_of _ = []"

fun bars2_of :: "artefact \<Rightarrow> real option list" where
  "bars2_of (BarChart x_labels colors bars1 bars2) = bars2"
| "bars2_of _ = []"



section \<open>Map renderers\<close>

definition create_choropleth_map ::
  "bool \<Rightarrow> response_area list \<Rightarrow> string \<Rightarrow> string \<Rightarrow> string \<Rightarrow> string \<Rightarrow> world
     \<Rightarrow> error option \<times> world" where
  "create_choropleth_map HAS_FOLIUM gdf column title filename colormap w =
     (if \<not> HAS_FOLIUM
      then (None, print (''  Skipping '' @ filename @ '' (folium not installed)'') w)
      else
        let w1 = print (''  Creating: '' @ filename) w in
        case gdf_column column of
          None \<Rightarrow> (Some (KeyError column), w1)
        | Some (StrCol f) \<Rightarrow> (Some (TypeError ''> not supported between str and int''), w1)
        | Some (NumCol f) \<Rightarrow>
            let valid_gdf = filter (\<lambda>r. notna (f r) \<and> gt (f r) 0) gdf in
            if length valid_gdf = 0
            then (None, print (''    Warning: No valid data for '' @ column) w1)
            else
              let style_function =
                    \<lparr>fillColor = ''#ffffff'', color = ''#000000'', weight = 0.1, fillOpacity = 0\<rparr>;
                  m = MapDoc
                    [Choropleth valid_gdf [''response_area_id'', column] colormap title,
                     GeoJson (map (\<lambda>r. (r, style_function)) valid_gdf)
                       [''response_area_id'', column, ''population'', ''urban_class'']]
              in (None, print (saved_message filename) (save filename m w1)))"

definition default_colors :: "string \<rightharpoonup> string" where
  "default_colors =
     [''urban_core'' \<mapsto> ''#d62728'',
      ''inner_suburban'' \<mapsto> ''#ff7f0e'',
      ''outer_suburban'' \<mapsto> ''#2ca02c'',
      ''unknown'' \<mapsto> ''#7f7f7f'']"

text \<open>\<^verbatim>\<open>colors.get(category, default)\<close>: only a string can be a key of the dictionary.\<close>

definition colors_get :: "(string \<rightharpoonup> string) \<Rightarrow> pyval \<Rightarrow> string \<Rightarrow> string" where
  "colors_get colors category d =
     (case category of
        PStr s \<Rightarrow> (case colors s of Some c \<Rightarrow> c | None \<Rightarrow> d)
      | _ \<Rightarrow> d)"

definition categorical_style ::
  "(string \<rightharpoonup> string) \<Rightarrow> string \<Rightarrow> response_area \<Rightarrow> style" where
  "categorical_style colors column feature =
     (let category = (case properties feature column of None \<Rightarrow> PStr ''unknown'' | Some v \<Rightarrow> v)
      in \<lparr>fillColor = colors_get colors category ''#7f7f7f'',
          color = ''#000000'', weight = 0.5, fillOpacity = 0.7\<rparr>)"

definition create_categorical_map ::
  "bool \<Rightarrow> response_area list \<Rightarrow> string \<Rightarrow> string \<Rightarrow> string \<Rightarrow> (string \<rightharpoonup> string) option
     \<Rightarrow> world \<Rightarrow> error option \<times> world" where
  "create_categorical_map HAS_FOLIUM gdf column title filename colors_arg w =
     (if \<not> HAS_FOLIUM
      then (None, print (''  Skipping '' @ filename @ '' (folium not installed)'') w)
      else
        let w1 = print (''  Creating: '' @ filename) w;
            colors = (case colors_arg of None \<Rightarrow> default_colors | Some c \<Rightarrow> c);
            m = MapDoc
              [GeoJson (map (\<lambda>r. (r, categorical_style colors column r)) gdf)
                 [''response_area_id'', column, ''population'', ''incidents_per_1000_pop''],
               Legend [(''#d62728'', ''Urban Core''), (''#ff7f0e'', ''Inner Suburban''),
                       (''#2ca02c'', ''Outer Suburban'')]]
        in (None, print (saved_message filename) (save filename m w1)))"

section \<open>Chart renderers\<close>

subsection \<open>Bar chart\<close>

text \<open>\<^verbatim>\<open>df[c]\<close> on a summary DataFrame, read through the field of the rows that holds it.\<close>

definition get_column :: "summary_df \<Rightarrow> string \<Rightarrow> (summary_row \<Rightarrow> 'a) \<Rightarrow> error + 'a list" where
  "get_column df c field =
     (if c \<in> set (columns df) then Inr (map field (rows df)) else Inl (KeyError c))"

text \<open>\<^verbatim>\<open>pd.Categorical(values, categories=order)\<close>: a value outside the categories becomes missing.\<close>

definition Categorical :: "string list \<Rightarrow> string option \<Rightarrow> string option" where
  "Categorical categories v =
     (case v of None \<Rightarrow> None
      | Some s \<Rightarrow> if s \<in> set categories then Some s else None)"

text \<open>
  \<^verbatim>\<open>sort_values\<close> on an ordered categorical column: rows are ordered by the position of
  their category, and rows with a missing category come last. The sort is modelled as a
  stable one. The general lemmas below speak of the sequence of classes only, and the
  example summaries have at most one row of a class, so that no statement depends on how
  ties are broken.
\<close>

definition category_code :: "string list \<Rightarrow> string option \<Rightarrow> nat" where
  "category_code categories v =
     (case v of None \<Rightarrow> length categories
      | Some s \<Rightarrow> length (takeWhile (\<lambda>c. c \<noteq> s) categories))"

definition sort_values :: "string list \<Rightarrow> summary_row list \<Rightarrow> summary_row list" where
  "sort_values categories rs = sort_key (\<lambda>r. category_code categories (urban_class r)) rs"

definition order :: "string list" where
  "order = [''urban_core'', ''inner_suburban'', ''outer_suburban'']"

definition labels :: "string \<rightharpoonup> string" where
  "labels =
     [''urban_core'' \<mapsto> ''Urban Core'' @ [CHR 0x0A] @ ''(>10k/sq mi)'',
      ''inner_suburban'' \<mapsto> ''Inner Suburban'' @ [CHR 0x0A] @ ''(3-10k/sq mi)'',
      ''outer_suburban'' \<mapsto> ''Outer Suburban'' @ [CHR 0x0A] @ ''(<3k/sq mi)'']"

text \<open>\<^verbatim>\<open>labels.get(c, c)\<close> on a cell of the categorical column.\<close>

definition labels_get :: "string option \<Rightarrow> string option" where
  "labels_get c =
     (case c of None \<Rightarrow> None
      | Some s \<Rightarrow> (case labels s of Some l \<Rightarrow> Some l | None \<Rightarrow> Some s))"

text \<open>
  The renderer receives the DataFrame by reference. The assignment to the column
  \<^verbatim>\<open>urban_class\<close> writes into the caller's object; \<^verbatim>\<open>sort_values\<close> returns a new
  DataFrame, bound to the local name only.
\<close>

text \<open>The effect of the assignment to the column \<^verbatim>\<open>urban_class\<close> on one row.\<close>

definition as_categorical :: "summary_row \<Rightarrow> summary_row" where
  "as_categorical r = r\<lparr>urban_class := Categorical order (urban_class r)\<rparr>"

text \<open>
  \<^verbatim>\<open>ax.bar(x, height)\<close> of matplotlib, as far as it raises on the labels. A label of a
  row of a missing class is the float NaN. As soon as one label is a string the axis is a
  category axis, whose unit data takes strings only: a missing label beside a string
  label raises \<^verbatim>\<open>TypeError\<close>. Labels that are all strings are accepted, and so is a list
  without any string, which is read as numbers.
\<close>

definition ax_bar :: "string option list \<Rightarrow> real option list \<Rightarrow> error option" where
  "ax_bar x height =
     (if None \<in> set x \<and> filter (\<lambda>l. l \<noteq> None) x \<noteq> []
      then Some (TypeError ''value must be an instance of str or bytes, not a float'')
      else None)"

text \<open>
  The first \<^verbatim>\<open>bar\<close> call is made before the column \<^verbatim>\<open>pct_single_family\<close> is read, so a
  label it rejects ends the renderer there: nothing is drawn into the second panel and no
  file is saved, while the assignment to the caller's table has already taken place.
\<close>

definition create_bar_chart :: "nat \<Rightarrow> string \<Rightarrow> world \<Rightarrow> error option \<times> world" where
  "create_bar_chart summary_df filename w =
     (let w1 = print (''  Creating: '' @ filename) w in
      case get_column (frames w1 summary_df) ''urban_class'' urban_class of
        Inl e \<Rightarrow> (Some e, w1)
      | Inr classes \<Rightarrow>
          let caller_df = frames w1 summary_df;
              assigned = caller_df\<lparr>rows := map as_categorical (rows caller_df)\<rparr>;
              w2 = w1\<lparr>frames := (frames w1)(summary_df := assigned)\<rparr>;
              sorted_df = assigned\<lparr>rows := sort_values order (rows assigned)\<rparr>;
              x_labels = map (\<lambda>r. labels_get (urban_class r)) (rows sorted_df);
              colors = [''#d62728'', ''#ff7f0e'', ''#2ca02c'']
          in (case get_column sorted_df ''incidents_per_1000_pop'' incidents_per_1000_pop of
                Inl e \<Rightarrow> (Some e, w2)
              | Inr bars1 \<Rightarrow>
                  (case ax_bar x_labels bars1 of
                     Some e \<Rightarrow> (Some e, w2)
                   | None \<Rightarrow>
                       (case get_column sorted_df ''pct_single_family'' pct_single_family of
                          Inl e \<Rightarrow> (Some e, w2)
                        | Inr bars2 \<Rightarrow>
                            (case ax_bar x_labels bars2 of
                               Some e \<Rightarrow> (Some e, w2)
                             | None \<Rightarrow>
                                 (None, print (saved_message filename)
                                    (save filename (BarChart x_labels colors bars1 bars2)
                                       w2)))))))"

subsection \<open>Scatter plot\<close>

text \<open>
  The regression routine \<^verbatim>\<open>scipy.stats.linregress\<close> is a parameter of the renderer.
  It receives the two columns of the filtered rows; these hold no missing value, since
  the filter has removed the rows where one is missing.
\<close>

definition scatter_valid :: "response_area list \<Rightarrow> response_area list" where
  "scatter_valid gdf =
     filter (\<lambda>r. gt (population r) 100
               \<and> notna (pct_single_family r)
               \<and> notna (incidents_per_1000_pop r)
               \<and> ne (urban_class r) ''unknown'') gdf"

definition scatter_colors :: "(string \<times> string) list" where
  "scatter_colors =
     [(''urban_core'', ''#d62728''),
      (''inner_suburban'', ''#ff7f0e''),
      (''outer_suburban'', ''#2ca02c'')]"

definition scatter_series :: "response_area list \<Rightarrow> string \<times> string \<Rightarrow> series" where
  "scatter_series valid item =
     (let subset = filter (\<lambda>r. urban_class r = Some (fst item)) valid
      in \<lparr>series_class = fst item,
          series_color = snd item,
          series_x = map pct_single_family subset,
          series_y = map incidents_per_1000_pop subset,
          series_s = map (\<lambda>r. map_option (\<lambda>p. p / 100) (population r)) subset\<rparr>)"

definition create_scatter_plot ::
  "(real list \<Rightarrow> real list \<Rightarrow> error + fit) \<Rightarrow> response_area list \<Rightarrow> string \<Rightarrow> world
     \<Rightarrow> error option \<times> world" where
  "create_scatter_plot linregress gdf filename w =
     (let w1 = print (''  Creating: '' @ filename) w;
          valid = scatter_valid gdf;
          scattered = map (scatter_series valid) scatter_colors
      in case linregress (List.map_filter pct_single_family valid)
                         (List.map_filter incidents_per_1000_pop valid) of
           Inl e \<Rightarrow> (Some e, w1)
         | Inr f \<Rightarrow>
             let x_line = [0, 100];
                 y_line = [intercept f,
                           (case (intercept f, slope f) of
                              (Some i, Some s) \<Rightarrow> Some (i + s * 100)
                            | _ \<Rightarrow> None)]
             in (None, print (saved_message filename)
                   (save filename (ScatterPlot scattered x_line y_line (r_value f)) w1)))"

subsection \<open>Summary table image\<close>

definition display_cols :: "(string \<times> string) list" where
  "display_cols =
     [(''urban_class'', ''Classification''),
      (''population'', ''Population''),
      (''total_incidents'', ''Total Incidents''),
      (''incidents_per_1000_pop'', ''Rate per 1,000 Pop''),
      (''pct_single_family'', ''% Single-Family'')]"

text \<open>
  The cell of a selected column, after the formatting step for its display label. The
  text of a formatted number is kept as the format specification and the number.
\<close>

definition table_cell :: "string \<Rightarrow> summary_row \<Rightarrow> cell" where
  "table_cell c r =
     (if c = ''population'' then Formatted '',.0f'' (population r)
      else if c = ''total_incidents'' then Formatted '',.0f'' (total_incidents r)
      else if c = ''incidents_per_1000_pop'' then Formatted ''.2f'' (incidents_per_1000_pop r)
      else if c = ''pct_single_family'' then Formatted ''.1f%'' (pct_single_family r)
      else Text (urban_class r))"

text \<open>
  \<^verbatim>\<open>ax.table(cellText, colLabels)\<close> of matplotlib, as far as it raises on the shape of the
  cells. It takes the number of columns from the first row of \<^verbatim>\<open>cellText\<close>, which raises
  \<^verbatim>\<open>IndexError\<close> when there is no row, and divides the width of the table by that
  number, which raises \<^verbatim>\<open>ZeroDivisionError\<close> when the rows have no cell.
\<close>

definition ax_table :: "cell list list \<Rightarrow> string list \<Rightarrow> error option" where
  "ax_table cellText colLabels =
     (case cellText of
        [] \<Rightarrow> Some (IndexError ''index 0 is out of bounds for axis 0 with size 0'')
      | first # _ \<Rightarrow>
          if length first = 0 then Some (ZeroDivisionError ''float division by zero'')
          else None)"

definition create_summary_table_image :: "nat \<Rightarrow> string \<Rightarrow> world \<Rightarrow> error option \<times> world" where
  "create_summary_table_image summary_df filename w =
     (let w1 = print (''  Creating: '' @ filename) w;
          df = frames w1 summary_df;
          selected = filter (\<lambda>c. fst c \<in> set (columns df)) display_cols;
          colLabels = map snd selected;
          cellText = map (\<lambda>r. map (\<lambda>c. table_cell (fst c) r) selected) (rows df)
      in case ax_table cellText colLabels of
           Some e \<Rightarrow> (Some e, w1)
         | None \<Rightarrow>
             (None, print (saved_message filename)
                (save filename (TableImage colLabels cellText) w1)))"

section \<open>The regression routine\<close>

text \<open>
  Modelled from the spec: \<^verbatim>\<open>scipy.stats.linregress\<close> is a library routine and is not in
  the repository. The spec calls it an ordinary least-squares linear fit returning slope,
  intercept and correlation coefficient. The definition computes these in exact real
  arithmetic from the means and the averaged sums of squares, rejects an empty sample and
  a sample whose x values are all identical as the library does, and clips the correlation
  coefficient to the interval from -1 to 1. The p-value and the standard error are not
  modelled.
\<close>

definition np_mean :: "real list \<Rightarrow> real" where
  "np_mean xs = sum_list xs / real (length xs)"

definition linregress :: "real list \<Rightarrow> real list \<Rightarrow> error + fit" where
  "linregress x y =
     (if length x = 0 \<or> length y = 0 then Inl (ValueError ''Inputs must not be empty.'')
      else if length x \<noteq> length y then Inl (ValueError ''all the input array dimensions must match'')
      else if Max (set x) = Min (set x) \<and> 1 < length x
      then Inl (ValueError ''Cannot calculate a linear regression if all x values are identical'')
      else
        let xmean = np_mean x;
            ymean = np_mean y;
            ssxm = np_mean (map (\<lambda>a. (a - xmean) * (a - xmean)) x);
            ssxym = np_mean (map (\<lambda>p. (fst p - xmean) * (snd p - ymean)) (zip x y));
            ssym = np_mean (map (\<lambda>b. (b - ymean) * (b - ymean)) y);
            r = (if ssxm = 0 \<or> ssym = 0 then 0
                 else let r0 = ssxym / sqrt (ssxm * ssym)
                      in if 1 < r0 then 1 else if r0 < - 1 then - 1 else r0);
            slope = (if ssxm = 0 then None else Some (ssxym / ssxm));
            intercept = map_option (\<lambda>s. ymean - s * xmean) slope
        in Inr \<lparr>slope = slope, intercept = intercept, r_value = r\<rparr>)"

section \<open>The orchestrator\<close>

text \<open>Running the next step only when the previous one has not raised.\<close>

definition and_then ::
  "error option \<times> world \<Rightarrow> (world \<Rightarrow> error option \<times> world) \<Rightarrow> error option \<times> world" where
  "and_then r f = (case fst r of Some e \<Rightarrow> (Some e, snd r) | None \<Rightarrow> f (snd r))"

function str_nat :: "nat \<Rightarrow> string" where
  "str_nat n =
     (if n < 10 then [char_of (48 + n)]
      else str_nat (n div 10) @ [char_of (48 + n mod 10)])"
  by pat_completeness auto
termination
  by (relation "measure id") auto


text \<open>
  \<^verbatim>\<open>load_data\<close> receives the content of the three input files. The response areas are
  passed on by value, as no renderer writes to them; the two summary DataFrames are placed
  in the store, at the addresses \<open>summary_urban\<close> and \<open>summary_housing\<close>.
\<close>

definition summary_urban :: nat where
  "summary_urban = 0"

definition summary_housing :: nat where
  "summary_housing = 1"

definition load_data ::
  "response_area list \<Rightarrow> summary_df \<Rightarrow> summary_df \<Rightarrow> world \<Rightarrow> world" where
  "load_data ra urban housing w =
     (let w1 = print ([CHR 0x0A] @ ''Loading data...'') w;
          w2 = print (''  Response areas: '' @ str_nat (length ra)) w1
      in w2\<lparr>frames := (frames w2)(summary_urban := urban, summary_housing := housing)\<rparr>)"

definition next_steps :: string where
  "next_steps = concat (map (\<lambda>l. [CHR 0x0A] @ l)
     [''1. Review the visualizations:'',
      ''   - Open outputs/map_incidents_per_capita.html in a browser'',
      ''   - Open outputs/map_urban_classification.html in a browser'',
      ''   - Review the PNG charts'',
      [],
      ''2. Prepare the findings brief:'',
      ''   - Key finding: Do suburban areas have higher per-capita incident rates?'',
      ''   - Statistical significance: Check outputs/statistical_tests.txt'',
      ''   - Housing correlation: Does % single-family predict incident rates?'',
      [],
      ''3. Share with Tim for review'',
      []])"

definition print_summary :: "world \<Rightarrow> error option \<times> world" where
  "print_summary w =
     (let w1 = print ([CHR 0x0A] @ replicate 60 (CHR ''='')) w;
          w2 = print ''OUTPUTS CREATED'' w1;
          w3 = print (replicate 60 (CHR ''='')) w2;
          outputs = remdups (map fst (files w3));
          w4 = foldl (\<lambda>v f. print (''  - outputs/'' @ f) v) w3 (sort outputs);
          w5 = print ([CHR 0x0A] @ replicate 60 (CHR ''='')) w4;
          w6 = print ''NEXT STEPS'' w5;
          w7 = print (replicate 60 (CHR ''='')) w6
      in (None, print next_steps w7))"

definition create_maps :: "bool \<Rightarrow> response_area list \<Rightarrow> world \<Rightarrow> error option \<times> world" where
  "create_maps HAS_FOLIUM ra w =
     (if HAS_FOLIUM then
        and_then
          (and_then
             (create_choropleth_map HAS_FOLIUM ra ''incidents_per_1000_pop''
                ''Fire Incidents per 1,000 Population'' ''map_incidents_per_capita.html''
                ''YlOrRd'' w)
             (create_categorical_map HAS_FOLIUM ra ''urban_class''
                ''Urban Classification'' ''map_urban_classification.html'' None))
          (create_choropleth_map HAS_FOLIUM ra ''pct_single_family''
             ''% Single-Family Housing'' ''map_housing_typology.html'' ''RdYlGn_r'')
      else (None, print ''  Skipping interactive maps (install folium: pip install folium)'' w))"

definition create_charts ::
  "(real list \<Rightarrow> real list \<Rightarrow> error + fit) \<Rightarrow> response_area list \<Rightarrow> world
     \<Rightarrow> error option \<times> world" where
  "create_charts regress ra w =
     and_then
       (and_then
          (create_bar_chart summary_urban ''chart_urban_comparison.png'' w)
          (create_scatter_plot regress ra ''chart_housing_correlation.png''))
       (create_summary_table_image summary_urban ''table_summary.png'')"

definition main ::
  "(real list \<Rightarrow> real list \<Rightarrow> error + fit) \<Rightarrow> bool
     \<Rightarrow> response_area list \<Rightarrow> summary_df \<Rightarrow> summary_df \<Rightarrow> world \<Rightarrow> error option \<times> world" where
  "main regress HAS_FOLIUM ra_file urban_file housing_file w =
     (let w1 = print ([CHR 0x0A] @ replicate 60 (CHR ''#'')) w;
          w2 = print ''# FIRE RESOURCE ANALYSIS - VISUALIZATION'' w1;
          w3 = print (replicate 60 (CHR ''#'')) w2;
          w4 = load_data ra_file urban_file housing_file w3;
          w5 = print ([CHR 0x0A] @ ''Creating maps...'') w4
      in and_then
           (and_then
              (create_maps HAS_FOLIUM ra_file w5)
              (\<lambda>v. create_charts regress ra_file (print ([CHR 0x0A] @ ''Creating charts...'') v)))
           print_summary)"



section \<open>Example inputs\<close>

definition area ::
  "string \<Rightarrow> real option \<Rightarrow> real option \<Rightarrow> real option \<Rightarrow> string option \<Rightarrow> response_area" where
  "area i p inc pct uc =
     \<lparr>urban_class = uc, population = p, total_incidents = None,
      incidents_per_1000_pop = inc, pct_single_family = pct, response_area_id = i\<rparr>"

definition empty_df :: summary_df where
  "empty_df = \<lparr>columns = [], rows = []\<rparr>"

definition empty_world :: world where
  "empty_world = \<lparr>files = [], console = [], frames = (\<lambda>a. empty_df)\<rparr>"

text \<open>A world with no file and no output in which every address holds the given DataFrame.\<close>

definition world_with :: "summary_df \<Rightarrow> world" where
  "world_with df = empty_world\<lparr>frames := (\<lambda>a. df)\<rparr>"

text \<open>
  Four response areas: two with all values present, one small area of unknown class with
  an incident rate of zero, and one whose incident rate and class are missing.
\<close>

definition example_areas :: "response_area list" where
  "example_areas =
     [area ''RA1'' (Some 5000) (Some 20) (Some 10) (Some ''urban_core''),
      area ''RA2'' (Some 8000) (Some 60) (Some 30) (Some ''inner_suburban''),
      area ''RA3'' (Some 50) (Some 0) (Some 80) (Some ''unknown''),
      area ''RA4'' (Some 3000) None (Some 40) None]"

text \<open>Areas in which no incident rate is present and positive.\<close>

definition quiet_areas :: "response_area list" where
  "quiet_areas =
     [area ''RA3'' (Some 50) (Some 0) (Some 80) (Some ''unknown''),
      area ''RA4'' (Some 3000) None (Some 40) None]"

text \<open>A populated area with both metrics present and a missing class.\<close>

definition unclassified_area :: response_area where
  "unclassified_area = area ''RA5'' (Some 200) (Some 100) (Some 20) None"

definition summary_line ::
  "string \<Rightarrow> real \<Rightarrow> real \<Rightarrow> real \<Rightarrow> real \<Rightarrow> summary_row" where
  "summary_line uc p t inc pct =
     \<lparr>urban_class = Some uc, population = Some p, total_incidents = Some t,
      incidents_per_1000_pop = Some inc, pct_single_family = Some pct\<rparr>"

definition all_columns :: "string list" where
  "all_columns =
     [''urban_class'', ''population'', ''total_incidents'',
      ''incidents_per_1000_pop'', ''pct_single_family'']"

text \<open>The three classes, in an order that is not the display order.\<close>

definition example_summary :: summary_df where
  "example_summary =
     \<lparr>columns = all_columns,
      rows = [summary_line ''outer_suburban'' 300000 900 3 70,
              summary_line ''urban_core'' 100000 500 5 10,
              summary_line ''inner_suburban'' 200000 800 4 40]\<rparr>"

text \<open>The same summary with a fourth row, of the class \<^verbatim>\<open>unknown\<close>, in second place.\<close>

definition summary_with_unknown :: summary_df where
  "summary_with_unknown =
     \<lparr>columns = all_columns,
      rows = [summary_line ''outer_suburban'' 300000 900 3 70,
              summary_line ''unknown'' 1000 9 9 50,
              summary_line ''urban_core'' 100000 500 5 10,
              summary_line ''inner_suburban'' 200000 800 4 40]\<rparr>"

text \<open>The example summary without the column \<^verbatim>\<open>total_incidents\<close>.\<close>

definition summary_without_total :: summary_df where
  "summary_without_total =
     example_summary\<lparr>columns :=
       [''urban_class'', ''population'', ''incidents_per_1000_pop'', ''pct_single_family'']\<rparr>"

text \<open>A summary with all the columns and no row, as read from a file that has only a header.\<close>

definition summary_without_rows :: summary_df where
  "summary_without_rows = \<lparr>columns = all_columns, rows = []\<rparr>"

text \<open>The example summary under a header that has none of the expected columns.\<close>

definition summary_other_columns :: summary_df where
  "summary_other_columns = example_summary\<lparr>columns := [''class'', ''rate'']\<rparr>"

section \<open>Basic facts about the world\<close>

lemma files_print [simp]: "files (print s w) = files w"
  by (simp add: print_def)

lemma frames_print [simp]: "frames (print s w) = frames w"
  by (simp add: print_def)

lemma frames_save [simp]: "frames (save n a w) = frames w"
  by (simp add: save_def)

lemma new_files_print [simp]: "new_files w (print s w') = new_files w w'"
  by (simp add: new_files_def print_def)

lemma new_files_save [simp]: "files w' = files w \<Longrightarrow> new_files w (save n a w') = [(n, a)]"
  by (simp add: new_files_def save_def)

lemma new_files_same [simp]: "new_files w w = []"
  by (simp add: new_files_def)

lemma new_files_frames [simp]: "new_files w (w'\<lparr>frames := f\<rparr>) = new_files w w'"
  by (simp add: new_files_def)

lemma notna_gt_iff: "(notna v \<and> gt v 0) = (\<exists>x. v = Some x \<and> 0 < x)"
  by (cases v) (simp_all add: notna_def gt_def)

lemma incidents_column:
  "gdf_column ''incidents_per_1000_pop'' = Some (NumCol incidents_per_1000_pop)"
  by (simp add: gdf_column_def)

section \<open>The continuous choropleth\<close>

text \<open>
  Claim C3. With folium available and a numeric metric column, the rows that the
  continuous choropleth hands to its colouring layer are exactly the rows of the table
  whose metric is present and strictly positive, in the order of the table, and so are the
  rows of its tooltip layer: a row whose metric is missing or not positive is absent from
  the coloured features, and every row with a present, positive metric is among them. The
  renderer returns without an error, and it writes the document exactly when there is
  such a row.
\<close>

theorem choropleth_rendered_features:
  assumes "HAS_FOLIUM" and "gdf_column column = Some (NumCol f)"
  shows "fst (create_choropleth_map HAS_FOLIUM gdf column title filename colormap w) = None
    \<and> map fst (new_files w
          (snd (create_choropleth_map HAS_FOLIUM gdf column title filename colormap w)))
      = (if filter (\<lambda>r. \<exists>v. f r = Some v \<and> 0 < v) gdf = [] then [] else [filename])
    \<and> concat (map (coloured_features \<circ> snd) (new_files w
          (snd (create_choropleth_map HAS_FOLIUM gdf column title filename colormap w))))
      = filter (\<lambda>r. \<exists>v. f r = Some v \<and> 0 < v) gdf
    \<and> concat (map (tooltip_features \<circ> snd) (new_files w
          (snd (create_choropleth_map HAS_FOLIUM gdf column title filename colormap w))))
      = filter (\<lambda>r. \<exists>v. f r = Some v \<and> 0 < v) gdf
    \<and> (\<Union>a \<in> snd ` set (new_files w
              (snd (create_choropleth_map HAS_FOLIUM gdf column title filename colormap w))).
            rendered_features a)
      = {r \<in> set gdf. \<exists>v. f r = Some v \<and> 0 < v}"
proof -
  let ?V = "filter (\<lambda>r. \<exists>v. f r = Some v \<and> 0 < v) gdf"
  have V: "filter (\<lambda>r. notna (f r) \<and> gt (f r) 0) gdf = ?V"
    by (simp add: notna_gt_iff)
  have S: "{r \<in> set gdf. \<exists>v. f r = Some v \<and> 0 < v} = set ?V"
    by simp
  show ?thesis
  proof (cases "?V = []")
    case True
    with assms show ?thesis
      unfolding S by (simp add: create_choropleth_map_def Let_def V)
  next
    case False
    with assms show ?thesis
      unfolding S by (simp add: create_choropleth_map_def Let_def V o_def image_image)
  qed
qed

theorem choropleth_rendered_features_witness:
  "fst (create_choropleth_map True example_areas ''incidents_per_1000_pop''
          ''Fire Incidents per 1,000 Population'' ''map_incidents_per_capita.html''
          ''YlOrRd'' empty_world) = None
   \<and> map fst (new_files empty_world
        (snd (create_choropleth_map True example_areas ''incidents_per_1000_pop''
                ''Fire Incidents per 1,000 Population'' ''map_incidents_per_capita.html''
                ''YlOrRd'' empty_world)))
     = [''map_incidents_per_capita.html'']
   \<and> concat (map (coloured_features \<circ> snd) (new_files empty_world
        (snd (create_choropleth_map True example_areas ''incidents_per_1000_pop''
                ''Fire Incidents per 1,000 Population'' ''map_incidents_per_capita.html''
                ''YlOrRd'' empty_world))))
     = [area ''RA1'' (Some 5000) (Some 20) (Some 10) (Some ''urban_core''),
        area ''RA2'' (Some 8000) (Some 60) (Some 30) (Some ''inner_suburban'')]
   \<and> concat (map (tooltip_features \<circ> snd) (new_files empty_world
        (snd (create_choropleth_map True example_areas ''incidents_per_1000_pop''
                ''Fire Incidents per 1,000 Population'' ''map_incidents_per_capita.html''
                ''YlOrRd'' empty_world))))
     = [area ''RA1'' (Some 5000) (Some 20) (Some 10) (Some ''urban_core''),
        area ''RA2'' (Some 8000) (Some 60) (Some 30) (Some ''inner_suburban'')]"
proof -
  have "filter (\<lambda>r. \<exists>v. incidents_per_1000_pop r = Some v \<and> 0 < v) example_areas
        = [area ''RA1'' (Some 5000) (Some 20) (Some 10) (Some ''urban_core''),
           area ''RA2'' (Some 8000) (Some 60) (Some 30) (Some ''inner_suburban'')]"
    by (simp add: example_areas_def area_def)
  with choropleth_rendered_features [OF TrueI incidents_column, of example_areas
      "''Fire Incidents per 1,000 Population''" "''map_incidents_per_capita.html''" "''YlOrRd''"
      empty_world]
  show ?thesis
    by simp
qed

text \<open>
  Claim C5. With folium available and a numeric metric column, when no row of the table has
  a present, strictly positive metric, the continuous choropleth returns without an error;
  the only change to the world is the two printed lines, the second being the warning: no
  file is written and the store is unchanged.
\<close>

theorem choropleth_no_valid_rows:
  assumes "HAS_FOLIUM" and "gdf_column column = Some (NumCol f)"
    and "\<forall>r \<in> set gdf. \<not> (\<exists>v. f r = Some v \<and> 0 < v)"
  shows "create_choropleth_map HAS_FOLIUM gdf column title filename colormap w
         = (None, w\<lparr>console := console w @
              [''  Creating: '' @ filename, ''    Warning: No valid data for '' @ column]\<rparr>)"
proof -
  from assms(3) have "filter (\<lambda>r. notna (f r) \<and> gt (f r) 0) gdf = []"
    by (simp add: filter_empty_conv notna_gt_iff)
  with assms(1,2) show ?thesis
    by (simp add: create_choropleth_map_def Let_def print_def)
qed

theorem choropleth_no_valid_rows_witness:
  "create_choropleth_map True quiet_areas ''incidents_per_1000_pop''
     ''Fire Incidents per 1,000 Population'' ''map_incidents_per_capita.html'' ''YlOrRd''
     empty_world
   = (None, empty_world\<lparr>console :=
        [''  Creating: map_incidents_per_capita.html'',
         ''    Warning: No valid data for incidents_per_1000_pop'']\<rparr>)"
  using choropleth_no_valid_rows [OF TrueI incidents_column, of quiet_areas
      "''Fire Incidents per 1,000 Population''" "''map_incidents_per_capita.html''"
      "''YlOrRd''" empty_world]
  by (simp add: quiet_areas_def area_def empty_world_def)

section \<open>The categorical map\<close>

text \<open>
  Claim C4. With folium available, the categorical map of the column \<^verbatim>\<open>urban_class\<close>
  returns without an error for every table and writes one document whose feature layer
  holds exactly one feature per input row, in the order of the rows, filled red for
  \<^verbatim>\<open>urban_core\<close>, orange for \<^verbatim>\<open>inner_suburban\<close>, green for \<^verbatim>\<open>outer_suburban\<close> and gray
  for every other class, a missing one included.
\<close>

theorem categorical_map_features:
  assumes "HAS_FOLIUM"
  shows "create_categorical_map HAS_FOLIUM gdf ''urban_class'' title filename None w
         = (None, w\<lparr>console := console w @ [''  Creating: '' @ filename, saved_message filename],
              files := (filename, MapDoc
                [GeoJson (map (\<lambda>r. (r, \<lparr>fillColor =
                      (if urban_class r = Some ''urban_core'' then ''#d62728''
                       else if urban_class r = Some ''inner_suburban'' then ''#ff7f0e''
                       else if urban_class r = Some ''outer_suburban'' then ''#2ca02c''
                       else ''#7f7f7f''),
                    color = ''#000000'', weight = 0.5, fillOpacity = 0.7\<rparr>)) gdf)
                   [''response_area_id'', ''urban_class'', ''population'', ''incidents_per_1000_pop''],
                 Legend [(''#d62728'', ''Urban Core''), (''#ff7f0e'', ''Inner Suburban''),
                         (''#2ca02c'', ''Outer Suburban'')]]) # files w\<rparr>)"
  using assms
  by (simp add: create_categorical_map_def Let_def print_def save_def categorical_style_def
      properties_def gdf_column_def colors_get_def default_colors_def
      split: option.split)

theorem categorical_map_features_witness:
  "create_categorical_map True example_areas ''urban_class'' ''Urban Classification''
     ''map_urban_classification.html'' None empty_world
   = (None, empty_world\<lparr>console :=
          [''  Creating: map_urban_classification.html'',
           saved_message ''map_urban_classification.html''],
        files := [(''map_urban_classification.html'', MapDoc
          [GeoJson (zip example_areas
               (map (\<lambda>c. \<lparr>fillColor = c, color = ''#000000'', weight = 0.5, fillOpacity = 0.7\<rparr>)
                  [''#d62728'', ''#ff7f0e'', ''#7f7f7f'', ''#7f7f7f'']))
             [''response_area_id'', ''urban_class'', ''population'', ''incidents_per_1000_pop''],
           Legend [(''#d62728'', ''Urban Core''), (''#ff7f0e'', ''Inner Suburban''),
                   (''#2ca02c'', ''Outer Suburban'')]])]\<rparr>)"
  using categorical_map_features [OF TrueI, of example_areas "''Urban Classification''"
      "''map_urban_classification.html''" empty_world]
  by (simp add: example_areas_def area_def empty_world_def)

section \<open>The scatter plot\<close>

lemma scatter_valid_example:
  "scatter_valid example_areas =
     [area ''RA1'' (Some 5000) (Some 20) (Some 10) (Some ''urban_core''),
      area ''RA2'' (Some 8000) (Some 60) (Some 30) (Some ''inner_suburban'')]"
  by (simp add: scatter_valid_def example_areas_def area_def gt_def notna_def ne_def)

lemma scatter_valid_unclassified:
  "scatter_valid (example_areas @ [unclassified_area]) =
     [area ''RA1'' (Some 5000) (Some 20) (Some 10) (Some ''urban_core''),
      area ''RA2'' (Some 8000) (Some 60) (Some 30) (Some ''inner_suburban''),
      area ''RA5'' (Some 200) (Some 100) (Some 20) None]"
  by (simp add: scatter_valid_def example_areas_def unclassified_area_def area_def
      gt_def notna_def ne_def)

lemma scatter_valid_quiet: "scatter_valid quiet_areas = []"
  by (simp add: scatter_valid_def quiet_areas_def area_def gt_def notna_def ne_def)

lemma scatter_condition:
  "(gt (population r) 100 \<and> notna (pct_single_family r)
      \<and> notna (incidents_per_1000_pop r) \<and> ne (urban_class r) ''unknown'')
   = ((\<exists>p. population r = Some p \<and> 100 < p) \<and> pct_single_family r \<noteq> None
      \<and> incidents_per_1000_pop r \<noteq> None \<and> urban_class r \<noteq> Some ''unknown'')"
  by (cases "population r") (simp_all add: gt_def notna_def ne_def)

lemma scatter_valid_rows:
  "scatter_valid gdf
     = filter (\<lambda>r. (\<exists>p. population r = Some p \<and> 100 < p) \<and> pct_single_family r \<noteq> None
            \<and> incidents_per_1000_pop r \<noteq> None \<and> urban_class r \<noteq> Some ''unknown'') gdf"
  by (simp add: scatter_valid_def scatter_condition)

text \<open>
  Claim C1. The renderer does not keep a row of missing \<^verbatim>\<open>urban_class\<close> out of the fit.
  The filter compares the class with \<^verbatim>\<open>!= 'unknown'\<close>, which holds for a missing value,
  and the regression runs over all the filtered rows, whereas the scatter loop beside it
  plots the rows of the three classes only. On the example table the plotted points are
  (10, 20) for \<^verbatim>\<open>urban_core\<close> and (30, 60) for \<^verbatim>\<open>inner_suburban\<close>, and the trend line
  runs from 0 to 200: the area RA3 of 50 inhabitants and the area RA4 without a rate
  are neither plotted nor fitted. With the unclassified area RA5 added, which has 200
  inhabitants and both metrics, the plotted points are the same, yet the row passes the
  filter and the trend line runs from 20 to 220.
\<close>

theorem scatter_fit_includes_missing_class:
  "urban_class unclassified_area = None
   \<and> scatter_valid (example_areas @ [unclassified_area])
     = scatter_valid example_areas @ [unclassified_area]
   \<and> map (\<lambda>a. (map series_x (scattered_of a), map series_y (scattered_of a), trend_line a))
       (map snd (new_files empty_world (snd (create_scatter_plot linregress
          example_areas ''chart_housing_correlation.png'' empty_world))))
     = [([[Some 10], [Some 30], []], [[Some 20], [Some 60], []], [Some 0, Some 200])]
   \<and> map (\<lambda>a. (map series_x (scattered_of a), map series_y (scattered_of a), trend_line a))
       (map snd (new_files empty_world (snd (create_scatter_plot linregress
          (example_areas @ [unclassified_area]) ''chart_housing_correlation.png'' empty_world))))
     = [([[Some 10], [Some 30], []], [[Some 20], [Some 60], []], [Some 20, Some 220])]"
  unfolding create_scatter_plot_def scatter_valid_example scatter_valid_unclassified
  by (simp add: Let_def List.map_filter_simps area_def unclassified_area_def
      linregress_def np_mean_def scatter_series_def scatter_colors_def)

section \<open>The regression on an exact linear relationship\<close>

lemma np_mean_double: "np_mean (map (\<lambda>x. 2 * x) xs) = 2 * np_mean xs"
proof -
  have "sum_list (map (\<lambda>x. 2 * x) xs) = 2 * sum_list xs"
    by (induction xs) simp_all
  then show ?thesis by (simp add: np_mean_def)
qed

lemma np_mean_scale: "np_mean (map (\<lambda>x. c * g x) xs) = c * np_mean (map g xs)"
proof -
  have "sum_list (map (\<lambda>x. c * g x) xs) = c * sum_list (map g xs)"
    by (induction xs) (simp_all add: algebra_simps)
  then show ?thesis by (simp add: np_mean_def)
qed

lemma zip_with_image: "zip xs (map f xs) = map (\<lambda>x. (x, f x)) xs"
  by (induction xs) simp_all

lemma ssxm_positive:
  fixes xs :: "real list"
  assumes "a \<in> set xs" and "b \<in> set xs" and "a \<noteq> b"
  shows "0 < np_mean (map (\<lambda>x. (x - m) * (x - m)) xs)"
proof -
  have nonneg: "\<And>x. x \<in> set (map (\<lambda>x. (x - m) * (x - m)) xs) \<Longrightarrow> 0 \<le> x"
    by auto
  from assms obtain c where c: "c \<in> set xs" "c \<noteq> m"
    by metis
  then have "(c - m) * (c - m) \<in> set (map (\<lambda>x. (x - m) * (x - m)) xs)"
    and "(c - m) * (c - m) \<noteq> 0"
    by auto
  then have "sum_list (map (\<lambda>x. (x - m) * (x - m)) xs) \<noteq> 0"
    using nonneg sum_list_nonneg_eq_0_iff [of "map (\<lambda>x. (x - m) * (x - m)) xs"] by blast
  moreover have "0 \<le> sum_list (map (\<lambda>x. (x - m) * (x - m)) xs)"
    using nonneg by (rule sum_list_nonneg)
  ultimately have "0 < sum_list (map (\<lambda>x. (x - m) * (x - m)) xs)"
    by simp
  moreover from assms have "0 < length xs"
    by (cases xs) auto
  ultimately show ?thesis
    by (simp add: np_mean_def)
qed

lemma not_all_identical:
  fixes xs :: "real list"
  assumes "a \<in> set xs" and "b \<in> set xs" and "a \<noteq> b"
  shows "Max (set xs) \<noteq> Min (set xs)"
proof
  assume eq: "Max (set xs) = Min (set xs)"
  have "a \<le> Max (set xs)" "Min (set xs) \<le> a" "b \<le> Max (set xs)" "Min (set xs) \<le> b"
    using assms by simp_all
  with eq have "a = b" by linarith
  with assms show False by simp
qed

lemma linregress_double:
  fixes xs :: "real list"
  assumes "a \<in> set xs" and "b \<in> set xs" and "a \<noteq> b"
  shows "linregress xs (map (\<lambda>x. 2 * x) xs)
         = Inr \<lparr>slope = Some 2, intercept = Some 0, r_value = 1\<rparr>"
proof -
  define m where "m = np_mean xs"
  define s where "s = np_mean (map (\<lambda>x. (x - m) * (x - m)) xs)"
  have len: "length xs \<noteq> 0"
    using assms by (cases xs) auto
  have spread: "Max (set xs) \<noteq> Min (set xs)"
    using assms by (rule not_all_identical)
  have pos: "0 < s"
    unfolding s_def using assms by (rule ssxm_positive)
  have ymean: "np_mean (map (\<lambda>x. 2 * x) xs) = 2 * m"
    by (simp add: np_mean_double m_def)
  have ssxym: "np_mean (map (\<lambda>p. (fst p - m) * (snd p - 2 * m)) (zip xs (map (\<lambda>x. 2 * x) xs)))
               = 2 * s"
  proof -
    have "map (\<lambda>p. (fst p - m) * (snd p - 2 * m)) (zip xs (map (\<lambda>x. 2 * x) xs))
          = map (\<lambda>x. 2 * ((x - m) * (x - m))) xs"
      by (simp add: zip_with_image o_def algebra_simps)
    then have "np_mean (map (\<lambda>p. (fst p - m) * (snd p - 2 * m)) (zip xs (map (\<lambda>x. 2 * x) xs)))
          = np_mean (map (\<lambda>x. 2 * ((x - m) * (x - m))) xs)"
      by (rule arg_cong)
    also have "\<dots> = 2 * s"
      unfolding s_def by (rule np_mean_scale)
    finally show ?thesis .
  qed
  have ssym: "np_mean (map (\<lambda>b. (b - 2 * m) * (b - 2 * m)) (map (\<lambda>x. 2 * x) xs)) = 4 * s"
  proof -
    have "map (\<lambda>b. (b - 2 * m) * (b - 2 * m)) (map (\<lambda>x. 2 * x) xs)
          = map (\<lambda>x. 4 * ((x - m) * (x - m))) xs"
      by (simp add: o_def algebra_simps)
    then have "np_mean (map (\<lambda>b. (b - 2 * m) * (b - 2 * m)) (map (\<lambda>x. 2 * x) xs))
          = np_mean (map (\<lambda>x. 4 * ((x - m) * (x - m))) xs)"
      by (rule arg_cong)
    also have "\<dots> = 4 * s"
      unfolding s_def by (rule np_mean_scale)
    finally show ?thesis .
  qed
  have ssym': "np_mean (map ((\<lambda>b. (b - 2 * m) * (b - 2 * m)) \<circ> (\<lambda>x. 2 * x)) xs) = 4 * s"
    using ssym by simp
  have root: "sqrt (s * (4 * s)) = 2 * s"
  proof -
    have "s * (4 * s) = (2 * s)\<^sup>2"
      by (simp add: power2_eq_square)
    then have "sqrt (s * (4 * s)) = \<bar>2 * s\<bar>"
      by (simp only: real_sqrt_abs)
    with pos show ?thesis
      by simp
  qed
  show ?thesis
    using len spread pos
    by (simp add: linregress_def Let_def ymean ssxym ssym' root
        m_def [symmetric] s_def [symmetric])
qed

lemma map_filter_double:
  assumes "\<forall>r \<in> set V. \<exists>x. p r = Some x \<and> q r = Some (2 * x)"
  shows "List.map_filter q V = map (\<lambda>x. 2 * x) (List.map_filter p V)"
  using assms by (induction V) (auto simp add: List.map_filter_simps)

lemma map_filter_member: "p r = Some x \<Longrightarrow> r \<in> set V \<Longrightarrow> x \<in> set (List.map_filter p V)"
  by (induction V) (auto simp add: List.map_filter_simps split: option.split)

text \<open>
  Claim C8. When every row that passes the filter has an incident rate of exactly twice its
  share of single-family housing, and two of these rows differ in that share, the
  regression over the filtered rows returns slope 2, intercept 0 and correlation
  coefficient 1, and the renderer draws the trend line from 0 to 200 with this coefficient.
  The arithmetic is that of the real numbers.
\<close>

theorem ols_exact_linear:
  assumes "\<forall>r \<in> set (scatter_valid gdf).
             \<exists>x. pct_single_family r = Some x \<and> incidents_per_1000_pop r = Some (2 * x)"
    and "a \<in> set (scatter_valid gdf)" and "b \<in> set (scatter_valid gdf)"
    and "pct_single_family a \<noteq> pct_single_family b"
  shows "linregress (List.map_filter pct_single_family (scatter_valid gdf))
                    (List.map_filter incidents_per_1000_pop (scatter_valid gdf))
           = Inr \<lparr>slope = Some 2, intercept = Some 0, r_value = 1\<rparr>
         \<and> create_scatter_plot linregress gdf filename w
           = (None, print (saved_message filename)
                (save filename
                   (ScatterPlot (map (scatter_series (scatter_valid gdf)) scatter_colors)
                      [0, 100] [Some 0, Some 200] 1)
                   (print (''  Creating: '' @ filename) w)))"
proof -
  let ?xs = "List.map_filter pct_single_family (scatter_valid gdf)"
  from assms(1,2) obtain xa where xa: "pct_single_family a = Some xa" by blast
  from assms(1,3) obtain xb where xb: "pct_single_family b = Some xb" by blast
  have "xa \<in> set ?xs" and "xb \<in> set ?xs"
    using xa xb assms(2,3) by (auto intro: map_filter_member)
  moreover have "xa \<noteq> xb"
    using xa xb assms(4) by simp
  ultimately have "linregress ?xs (map (\<lambda>x. 2 * x) ?xs)
      = Inr \<lparr>slope = Some 2, intercept = Some 0, r_value = 1\<rparr>"
    by (rule linregress_double)
  moreover have "List.map_filter incidents_per_1000_pop (scatter_valid gdf)
      = map (\<lambda>x. 2 * x) ?xs"
    using assms(1) by (rule map_filter_double)
  ultimately have fit: "linregress ?xs (List.map_filter incidents_per_1000_pop (scatter_valid gdf))
      = Inr \<lparr>slope = Some 2, intercept = Some 0, r_value = 1\<rparr>"
    by simp
  then show ?thesis
    by (simp add: create_scatter_plot_def Let_def)
qed

theorem ols_exact_linear_witness:
  "linregress [10, 30] [20, 60] = Inr \<lparr>slope = Some 2, intercept = Some 0, r_value = 1\<rparr>
   \<and> map (trend_line \<circ> snd) (new_files empty_world (snd (create_scatter_plot linregress
        example_areas ''chart_housing_correlation.png'' empty_world)))
     = [[Some 0, Some 200]]"
  using ols_exact_linear [of example_areas
      "area ''RA1'' (Some 5000) (Some 20) (Some 10) (Some ''urban_core'')"
      "area ''RA2'' (Some 8000) (Some 60) (Some 30) (Some ''inner_suburban'')"
      "''chart_housing_correlation.png''" empty_world]
  by (simp add: scatter_valid_example area_def List.map_filter_simps)

section \<open>The scatter plot on an empty selection\<close>

lemma and_then_error: "fst r \<noteq> None \<Longrightarrow> fst (and_then r f) \<noteq> None"
  by (auto simp add: and_then_def)

lemma and_then_error2: "(\<And>v. fst (f v) \<noteq> None) \<Longrightarrow> fst (and_then r f) \<noteq> None"
  by (auto simp add: and_then_def split: option.split)

text \<open>
  Claim C10. The scatter plot calls the regression on the filtered rows without testing
  whether there are any. When no row passes the filter and the regression routine rejects
  the empty sample, the renderer returns that error having written nothing, the chart stage
  fails, and so does the run, whether folium is available or not.
\<close>

theorem scatter_no_empty_guard:
  assumes "scatter_valid gdf = []" and "regress [] [] = Inl e"
  shows "create_scatter_plot regress gdf filename w
           = (Some e, print (''  Creating: '' @ filename) w)
         \<and> fst (create_charts regress gdf w) \<noteq> None
         \<and> fst (main regress HAS_FOLIUM gdf urban_file housing_file w) \<noteq> None"
proof -
  have s: "create_scatter_plot regress gdf name v = (Some e, print (''  Creating: '' @ name) v)"
    for name v
    using assms by (simp add: create_scatter_plot_def Let_def List.map_filter_simps)
  have c: "fst (create_charts regress gdf v) \<noteq> None" for v
    unfolding create_charts_def
    by (rule and_then_error, rule and_then_error2) (simp add: s)
  have "fst (main regress HAS_FOLIUM gdf urban_file housing_file w) \<noteq> None"
    unfolding main_def Let_def
    by (rule and_then_error, rule and_then_error2) (rule c)
  with s c show ?thesis by simp
qed

theorem scatter_no_empty_guard_witness:
  "create_scatter_plot linregress quiet_areas ''chart_housing_correlation.png'' empty_world
     = (Some (ValueError ''Inputs must not be empty.''),
        print ''  Creating: chart_housing_correlation.png'' empty_world)
   \<and> fst (create_charts linregress quiet_areas empty_world) \<noteq> None
   \<and> fst (main linregress False quiet_areas example_summary empty_df empty_world) \<noteq> None"
proof -
  have "linregress [] [] = Inl (ValueError ''Inputs must not be empty.'')"
    by (simp add: linregress_def)
  from scatter_no_empty_guard [of quiet_areas linregress
      "ValueError ''Inputs must not be empty.''" "''chart_housing_correlation.png''"
      empty_world False example_summary empty_df, OF scatter_valid_quiet this]
  show ?thesis
    by simp
qed

section \<open>The bar chart\<close>

subsection \<open>A list sorted by a key is the sequence of its buckets\<close>

lemma sorted_split:
  fixes k :: "'a \<Rightarrow> nat"
  shows "sorted (map k ys) \<Longrightarrow>
    filter (\<lambda>y. k y < n) ys @ filter (\<lambda>y. \<not> k y < n) ys = ys"
proof (induction ys)
  case Nil
  then show ?case by simp
next
  case (Cons y ys)
  show ?case
  proof (cases "k y < n")
    case True
    with Cons show ?thesis by simp
  next
    case False
    with Cons.prems have "\<forall>z \<in> set ys. \<not> k z < n"
      by auto
    then have "filter (\<lambda>y. k y < n) ys = []" and "filter (\<lambda>y. \<not> k y < n) ys = ys"
      by (simp_all add: filter_empty_conv)
    with False show ?thesis by simp
  qed
qed

lemma sorted_buckets:
  fixes k :: "'a \<Rightarrow> nat"
  shows "sorted (map k ys) \<Longrightarrow> \<forall>y \<in> set ys. k y < n
    \<Longrightarrow> ys = concat (map (\<lambda>i. filter (\<lambda>y. k y = i) ys) [0..<n])"
proof (induction n arbitrary: ys)
  case 0
  then show ?case by simp
next
  case (Suc n)
  let ?lo = "filter (\<lambda>y. k y < n) ys"
  have "sorted (map k ?lo)"
    using Suc.prems(1) by (simp add: sorted_filter)
  then have lo: "?lo = concat (map (\<lambda>i. filter (\<lambda>y. k y = i) ?lo) [0..<n])"
    by (rule Suc.IH) simp
  have eq: "map (\<lambda>i. filter (\<lambda>y. k y = i) ?lo) [0..<n]
            = map (\<lambda>i. filter (\<lambda>y. k y = i) ys) [0..<n]"
    by (rule map_cong) (auto intro: filter_cong)
  have lo': "?lo = concat (map (\<lambda>i. filter (\<lambda>y. k y = i) ys) [0..<n])"
    by (rule trans [OF lo]) (simp only: eq)
  have hi: "filter (\<lambda>y. \<not> k y < n) ys = filter (\<lambda>y. k y = n) ys"
  proof (rule filter_cong)
    fix y assume "y \<in> set ys"
    with Suc.prems(2) have "k y < Suc n" by blast
    then show "(\<not> k y < n) = (k y = n)" by arith
  qed simp
  have "ys = ?lo @ filter (\<lambda>y. \<not> k y < n) ys"
    using Suc.prems(1) by (simp add: sorted_split)
  also have "\<dots> = concat (map (\<lambda>i. filter (\<lambda>y. k y = i) ys) [0..<n])
                     @ filter (\<lambda>y. k y = n) ys"
    by (simp only: hi lo' [symmetric])
  also have "\<dots> = concat (map (\<lambda>i. filter (\<lambda>y. k y = i) ys) [0..<Suc n])"
    by simp
  finally show ?case .
qed

lemma sort_key_buckets:
  fixes k :: "'a \<Rightarrow> nat"
  assumes "\<forall>y \<in> set xs. k y < n"
  shows "sort_key k xs = concat (map (\<lambda>i. filter (\<lambda>y. k y = i) xs) [0..<n])"
proof -
  have "sort_key k xs = concat (map (\<lambda>i. filter (\<lambda>y. k y = i) (sort_key k xs)) [0..<n])"
    using assms by (intro sorted_buckets) simp_all
  then show ?thesis
    by (simp add: sort_key_stable)
qed

lemma upt_four: "[0..<4] = [0, Suc 0, 2, 3]"
  by code_simp

subsection \<open>The categorical column and its codes\<close>

lemma Categorical_cases:
  "Categorical order v = Some ''urban_core'' \<or> Categorical order v = Some ''inner_suburban''
   \<or> Categorical order v = Some ''outer_suburban'' \<or> Categorical order v = None"
  by (cases v) (auto simp add: Categorical_def order_def)

lemma Categorical_eq_Some:
  "c \<in> set order \<Longrightarrow> (Categorical order v = Some c) = (v = Some c)"
  by (cases v) (auto simp add: Categorical_def)

lemma Categorical_eq_None: "(Categorical order v = None) = (v \<notin> Some ` set order)"
  by (cases v) (auto simp add: Categorical_def)


lemma category_code_values:
  "category_code order (Some ''urban_core'') = 0"
  "category_code order (Some ''inner_suburban'') = Suc 0"
  "category_code order (Some ''outer_suburban'') = 2"
  "category_code order None = 3"
  by (simp_all add: category_code_def order_def)

lemma category_code_Categorical:
  "category_code order (Categorical order v) < 4"
  "(category_code order (Categorical order v) = 0) = (Categorical order v = Some ''urban_core'')"
  "(category_code order (Categorical order v) = Suc 0)
     = (Categorical order v = Some ''inner_suburban'')"
  "(category_code order (Categorical order v) = 2)
     = (Categorical order v = Some ''outer_suburban'')"
  "(category_code order (Categorical order v) = 3) = (Categorical order v = None)"
  using Categorical_cases [of v] by (auto simp add: category_code_values)

lemma map_filter_const:
  "map (\<lambda>r. h (g r)) (filter (\<lambda>r. g r = c) xs)
   = replicate (length (filter (\<lambda>r. g r = c) xs)) (h c)"
  by (induction xs) simp_all

lemma labels_get_values:
  "labels_get (Some ''urban_core'') = labels ''urban_core''"
  "labels_get (Some ''inner_suburban'') = labels ''inner_suburban''"
  "labels_get (Some ''outer_suburban'') = labels ''outer_suburban''"
  "labels_get None = None"
  by (simp_all add: labels_get_def labels_def)

lemma sort_values_classes:
  "sort_values order (map as_categorical rs)
   = filter (\<lambda>r. urban_class r = Some ''urban_core'') (map as_categorical rs)
     @ filter (\<lambda>r. urban_class r = Some ''inner_suburban'') (map as_categorical rs)
     @ filter (\<lambda>r. urban_class r = Some ''outer_suburban'') (map as_categorical rs)
     @ filter (\<lambda>r. urban_class r = None) (map as_categorical rs)"
proof -
  let ?k = "\<lambda>r. category_code order (urban_class r)"
  let ?xs = "map as_categorical rs"
  have "\<forall>y \<in> set ?xs. ?k y < 4"
    by (auto simp add: as_categorical_def category_code_Categorical)
  then have "sort_key ?k ?xs = concat (map (\<lambda>i. filter (\<lambda>y. ?k y = i) ?xs) [0..<4])"
    by (rule sort_key_buckets)
  moreover have "filter (\<lambda>y. ?k y = 0) ?xs
      = filter (\<lambda>r. urban_class r = Some ''urban_core'') ?xs"
    by (rule filter_cong)
      (auto simp add: as_categorical_def category_code_Categorical category_code_values)
  moreover have "filter (\<lambda>y. ?k y = Suc 0) ?xs
      = filter (\<lambda>r. urban_class r = Some ''inner_suburban'') ?xs"
    by (rule filter_cong)
      (auto simp add: as_categorical_def category_code_Categorical category_code_values)
  moreover have "filter (\<lambda>y. ?k y = 2) ?xs
      = filter (\<lambda>r. urban_class r = Some ''outer_suburban'') ?xs"
    by (rule filter_cong)
      (auto simp add: as_categorical_def category_code_Categorical category_code_values)
  moreover have "filter (\<lambda>y. ?k y = 3) ?xs = filter (\<lambda>r. urban_class r = None) ?xs"
    by (rule filter_cong)
      (auto simp add: as_categorical_def category_code_Categorical category_code_values)
  ultimately show ?thesis
    by (simp add: sort_values_def upt_four)
qed

lemma length_filter_categorical:
  "c \<in> set order \<Longrightarrow>
   length (filter (\<lambda>r. urban_class r = Some c) (map as_categorical rs))
   = length (filter (\<lambda>r. urban_class r = Some c) rs)"
  by (simp add: filter_map o_def as_categorical_def Categorical_eq_Some)

lemma length_filter_missing:
  "length (filter (\<lambda>r. urban_class r = None) (map as_categorical rs))
   = length (filter (\<lambda>r. urban_class r \<notin> Some ` set order) rs)"
  by (simp add: filter_map o_def as_categorical_def Categorical_eq_None)

lemma x_labels_sorted:
  "map (\<lambda>r. labels_get (urban_class r)) (sort_values order (map as_categorical rs))
   = replicate (length (filter (\<lambda>r. urban_class r = Some ''urban_core'') rs))
       (labels ''urban_core'')
     @ replicate (length (filter (\<lambda>r. urban_class r = Some ''inner_suburban'') rs))
       (labels ''inner_suburban'')
     @ replicate (length (filter (\<lambda>r. urban_class r = Some ''outer_suburban'') rs))
       (labels ''outer_suburban'')
     @ replicate (length (filter (\<lambda>r. urban_class r \<notin> Some ` set order) rs)) None"
proof -
  have o: "''urban_core'' \<in> set order" "''inner_suburban'' \<in> set order"
    "''outer_suburban'' \<in> set order"
    by (simp_all add: order_def)
  show ?thesis
    unfolding sort_values_classes map_append map_filter_const [of labels_get urban_class]
      length_filter_categorical [OF o(1)] length_filter_categorical [OF o(2)]
      length_filter_categorical [OF o(3)] length_filter_missing labels_get_values
    by (rule refl)
qed

subsection \<open>The labels handed to the \<^verbatim>\<open>bar\<close> calls\<close>





subsection \<open>The run of the renderer\<close>



lemma frames_world_with [simp]: "frames (world_with df) a = df"
  by (simp add: world_with_def)

lemma files_world_with [simp]: "files (world_with df) = []"
  by (simp add: world_with_def empty_world_def)

text \<open>
  Claim C2. On the three classes the renderer shows the bars in the fixed order: from the
  example summary, whose rows come as \<^verbatim>\<open>outer_suburban\<close>, \<^verbatim>\<open>urban_core\<close>,
  \<^verbatim>\<open>inner_suburban\<close>, both panels receive the labels of \<^verbatim>\<open>urban_core\<close>,
  \<^verbatim>\<open>inner_suburban\<close>, \<^verbatim>\<open>outer_suburban\<close> with the heights 5, 4, 3 and 10, 40, 70. A row
  of a class outside the three is not dropped by the reordering step. With a fourth row of
  class \<^verbatim>\<open>unknown\<close> in the summary, the reordered table has four rows, the last one with
  a missing label; the first \<^verbatim>\<open>bar\<close> call rejects that label, and the renderer ends with
  a \<^verbatim>\<open>TypeError\<close> and has written no chart.
\<close>

theorem bar_chart_unknown_class_fails:
  "fst (create_bar_chart summary_urban ''chart_urban_comparison.png''
          (world_with example_summary)) = None
   \<and> map (\<lambda>a. (x_labels_of a, bars1_of a, bars2_of a))
       (map snd (new_files (world_with example_summary)
          (snd (create_bar_chart summary_urban ''chart_urban_comparison.png''
                 (world_with example_summary)))))
     = [([labels ''urban_core'', labels ''inner_suburban'', labels ''outer_suburban''],
         [Some 5, Some 4, Some 3], [Some 10, Some 40, Some 70])]
   \<and> map (\<lambda>r. (labels_get (urban_class r), incidents_per_1000_pop r, pct_single_family r))
       (sort_values order (map as_categorical (rows summary_with_unknown)))
     = [(labels ''urban_core'', Some 5, Some 10), (labels ''inner_suburban'', Some 4, Some 40),
        (labels ''outer_suburban'', Some 3, Some 70), (None, Some 9, Some 50)]
   \<and> fst (create_bar_chart summary_urban ''chart_urban_comparison.png''
          (world_with summary_with_unknown))
     = Some (TypeError ''value must be an instance of str or bytes, not a float'')
   \<and> new_files (world_with summary_with_unknown)
       (snd (create_bar_chart summary_urban ''chart_urban_comparison.png''
              (world_with summary_with_unknown)))
     = []"
  by (simp add: create_bar_chart_def Let_def get_column_def summary_with_unknown_def
      example_summary_def all_columns_def summary_line_def sort_values_def category_code_def
      Categorical_def as_categorical_def order_def labels_get_def labels_def ax_bar_def)

section \<open>The summary table image\<close>

lemma create_summary_table_image_run:
  assumes "rows (frames w ref) \<noteq> []"
    and "filter (\<lambda>c. fst c \<in> set (columns (frames w ref))) display_cols \<noteq> []"
  shows "create_summary_table_image ref filename w
    = (None, print (saved_message filename)
        (save filename
          (TableImage (map snd (filter (\<lambda>c. fst c \<in> set (columns (frames w ref))) display_cols))
             (map (\<lambda>r. map (\<lambda>c. table_cell (fst c) r)
                     (filter (\<lambda>c. fst c \<in> set (columns (frames w ref))) display_cols))
                (rows (frames w ref))))
          (print (''  Creating: '' @ filename) w)))"
proof -
  from assms(1) obtain r rs where "rows (frames w ref) = r # rs"
    by (cases "rows (frames w ref)") auto
  with assms(2) show ?thesis
    by (simp add: create_summary_table_image_def Let_def ax_table_def)
qed

lemma selected_display_cols:
  "filter (\<lambda>c. fst c \<in> C) display_cols
   = (if ''urban_class'' \<in> C then [(''urban_class'', ''Classification'')] else [])
     @ (if ''population'' \<in> C then [(''population'', ''Population'')] else [])
     @ (if ''total_incidents'' \<in> C then [(''total_incidents'', ''Total Incidents'')] else [])
     @ (if ''incidents_per_1000_pop'' \<in> C
        then [(''incidents_per_1000_pop'', ''Rate per 1,000 Pop'')] else [])
     @ (if ''pct_single_family'' \<in> C then [(''pct_single_family'', ''% Single-Family'')] else [])"
  by (simp add: display_cols_def)

text \<open>
  Claim C7, as stated, fails: the renderer does not complete on every summary table. On a
  table without a row the \<^verbatim>\<open>table\<close> call raises \<^verbatim>\<open>IndexError\<close>, and on a table that has
  none of the five expected columns it raises \<^verbatim>\<open>ZeroDivisionError\<close>; no image is written.
\<close>

theorem summary_table_empty_counterexample:
  "fst (create_summary_table_image summary_urban ''table_summary.png''
          (world_with summary_without_rows))
     = Some (IndexError ''index 0 is out of bounds for axis 0 with size 0'')
   \<and> new_files (world_with summary_without_rows)
       (snd (create_summary_table_image summary_urban ''table_summary.png''
              (world_with summary_without_rows)))
     = []
   \<and> fst (create_summary_table_image summary_urban ''table_summary.png''
          (world_with summary_other_columns))
     = Some (ZeroDivisionError ''float division by zero'')
   \<and> new_files (world_with summary_other_columns)
       (snd (create_summary_table_image summary_urban ''table_summary.png''
              (world_with summary_other_columns)))
     = []"
  by (simp add: create_summary_table_image_def Let_def ax_table_def summary_without_rows_def
      summary_other_columns_def example_summary_def all_columns_def display_cols_def)

text \<open>
  Claim C7, amended. For every summary table that has a row and at least one of the five
  expected columns, the table-image renderer returns without an error and writes one image.
  The image has, in the display order, one column for each expected column that the table
  has, under its display label, and none for an expected column that is absent; a row of
  the table gives a row of cells, with the class as it is, the population and the total of
  incidents under the format \<^verbatim>\<open>,.0f\<close>, the rate under \<^verbatim>\<open>.2f\<close> and the housing share under
  \<^verbatim>\<open>.1f%\<close>.
\<close>

theorem summary_table_columns:
  assumes "rows (frames w ref) \<noteq> []"
    and "''urban_class'' \<in> set (columns (frames w ref))
         \<or> ''population'' \<in> set (columns (frames w ref))
         \<or> ''total_incidents'' \<in> set (columns (frames w ref))
         \<or> ''incidents_per_1000_pop'' \<in> set (columns (frames w ref))
         \<or> ''pct_single_family'' \<in> set (columns (frames w ref))"
  shows "create_summary_table_image ref filename w
    = (None, print (saved_message filename)
        (save filename
          (TableImage
             ((if ''urban_class'' \<in> set (columns (frames w ref))
               then [''Classification''] else [])
              @ (if ''population'' \<in> set (columns (frames w ref))
                 then [''Population''] else [])
              @ (if ''total_incidents'' \<in> set (columns (frames w ref))
                 then [''Total Incidents''] else [])
              @ (if ''incidents_per_1000_pop'' \<in> set (columns (frames w ref))
                 then [''Rate per 1,000 Pop''] else [])
              @ (if ''pct_single_family'' \<in> set (columns (frames w ref))
                 then [''% Single-Family''] else []))
             (map (\<lambda>r.
                (if ''urban_class'' \<in> set (columns (frames w ref))
                 then [Text (urban_class r)] else [])
                @ (if ''population'' \<in> set (columns (frames w ref))
                   then [Formatted '',.0f'' (population r)] else [])
                @ (if ''total_incidents'' \<in> set (columns (frames w ref))
                   then [Formatted '',.0f'' (total_incidents r)] else [])
                @ (if ''incidents_per_1000_pop'' \<in> set (columns (frames w ref))
                   then [Formatted ''.2f'' (incidents_per_1000_pop r)] else [])
                @ (if ''pct_single_family'' \<in> set (columns (frames w ref))
                   then [Formatted ''.1f%'' (pct_single_family r)] else []))
              (rows (frames w ref))))
          (print (''  Creating: '' @ filename) w)))"
proof -
  have sel: "filter (\<lambda>c. fst c \<in> set (columns (frames w ref))) display_cols \<noteq> []"
    using assms(2) unfolding selected_display_cols by auto
  show ?thesis
    unfolding create_summary_table_image_run [OF assms(1) sel]
    unfolding selected_display_cols
    by (simp add: table_cell_def)
qed

theorem summary_table_columns_witness:
  "create_summary_table_image summary_urban ''table_summary.png''
     (world_with summary_without_total)
   = (None, print (saved_message ''table_summary.png'')
       (save ''table_summary.png''
         (TableImage
            [''Classification'', ''Population'', ''Rate per 1,000 Pop'', ''% Single-Family'']
            [[Text (Some ''outer_suburban''), Formatted '',.0f'' (Some 300000),
              Formatted ''.2f'' (Some 3), Formatted ''.1f%'' (Some 70)],
             [Text (Some ''urban_core''), Formatted '',.0f'' (Some 100000),
              Formatted ''.2f'' (Some 5), Formatted ''.1f%'' (Some 10)],
             [Text (Some ''inner_suburban''), Formatted '',.0f'' (Some 200000),
              Formatted ''.2f'' (Some 4), Formatted ''.1f%'' (Some 40)]])
         (print ''  Creating: table_summary.png'' (world_with summary_without_total))))"
  using summary_table_columns [of "world_with summary_without_total" summary_urban
      "''table_summary.png''"]
  by (simp add: summary_without_total_def example_summary_def summary_line_def)

section \<open>The chart stage\<close>




lemma files_save [simp]: "files (save n a w) = (n, a) # files w"
  by (simp add: save_def)






lemma files_load_data [simp]: "files (load_data ra u h v) = files v"
  by (simp add: load_data_def Let_def)

lemma frames_load_data [simp]: "frames (load_data ra u h v) summary_urban = u"
  by (simp add: load_data_def Let_def summary_urban_def summary_housing_def)







section \<open>A run without folium\<close>


















lemma files_foldl_print [simp]: "files (foldl (\<lambda>v f. print (g f) v) v xs) = files v"
  by (induction xs arbitrary: v) simp_all

lemma print_summary_ok [simp]: "fst (print_summary w) = None"
  by (simp add: print_summary_def Let_def)

lemma files_print_summary [simp]: "files (snd (print_summary w)) = files w"
  by (simp add: print_summary_def Let_def)



lemma console_print [simp]: "console (print s w) = console w @ [s]"
  by (simp add: print_def)





end
